theory Spec2Isabelle
  imports Complex_Main "HOL-Library.Sublist"
begin

section \<open>chilog: the request-logging middleware of \<^verbatim>\<open>chilog.go\<close>\<close>

text \<open>
  The development embeds \<^verbatim>\<open>Middleware\<close> and \<^verbatim>\<open>formatReqBody\<close> of
  \<^verbatim>\<open>chilog.go\<close>. Bytes are characters (\<open>string\<close> is a list of 8-bit
  characters), Go's \<^verbatim>\<open>int\<close> is \<open>int\<close>, a \<^verbatim>\<open>nil\<close> pointer or interface is
  \<open>None\<close>, a \<^verbatim>\<open>nil\<close> byte slice is the empty list, a panic is a value of the
  result, and everything the handler does to the response writer is replayed call by call.
\<close>

subsection \<open>Values recovered from a panic\<close>

text \<open>
  \<^verbatim>\<open>rvr := recover()\<close> is \<open>None\<close> when the handler returned and \<open>Some v\<close> when it
  panicked with \<open>v\<close> (a \<^verbatim>\<open>panic(nil)\<close> that \<^verbatim>\<open>recover()\<close> reports as
  \<^verbatim>\<open>nil\<close> is a return to the code). The code distinguishes three kinds of value:
  \<^verbatim>\<open>http.ErrAbortHandler\<close> itself, any other value that implements \<^verbatim>\<open>error\<close>
  (carried with its \<^verbatim>\<open>Error()\<close> text), and a value that is no error (carried with its
  \<^verbatim>\<open>%v\<close> rendering).
\<close>

datatype panic_value = ErrAbortHandler | ErrorValue string | OtherValue string

text \<open>\<^verbatim>\<open>err, ok := rvr.(error); if !ok { err = fmt.Errorf("%v", rvr) }\<close>, lines 110-113.
  The sentinel is an error as well; the deferred function never reaches these lines with it.\<close>

fun coerce_error :: "panic_value \<Rightarrow> string" where
  "coerce_error ErrAbortHandler = ''net/http: abort Handler''"
| "coerce_error (ErrorValue msg) = msg"
| "coerce_error (OtherValue rendering) = rendering"

subsection \<open>The response writer and its observer\<close>

text \<open>
  \<^verbatim>\<open>w http.ResponseWriter\<close> is an interface: the model keeps the calls it received, in
  order. What the client is sent follows the interface's contract: the first header
  written fixes the status, and a \<^verbatim>\<open>Write\<close>, a \<^verbatim>\<open>ReadFrom\<close> or a
  \<^verbatim>\<open>Flush\<close> before any \<^verbatim>\<open>WriteHeader\<close> sends 200. The calls are those of
  \<^verbatim>\<open>http.ResponseWriter\<close>, \<^verbatim>\<open>io.ReaderFrom\<close> and \<^verbatim>\<open>http.Flusher\<close>;
  \<^verbatim>\<open>Hijack\<close> and \<^verbatim>\<open>Push\<close>, which the observer passes on without touching its
  own state, are not modelled.
\<close>

datatype rw_call = WriteHeader int | Write string | ReadFrom string | Flush

type_synonym ResponseWriter = "rw_call list"

fun client_status :: "ResponseWriter \<Rightarrow> int option" where
  "client_status [] = None"
| "client_status (WriteHeader c # cs) = Some c"
| "client_status (Write b # cs) = Some 200"
| "client_status (ReadFrom b # cs) = Some 200"
| "client_status (Flush # cs) = Some 200"

text \<open>
  \<^verbatim>\<open>ww := middleware.NewWrapResponseWriter(w, r.ProtoMajor)\<close> is the observer of the
  dependency go-chi/chi v5.0.8 pinned in \<^verbatim>\<open>go.mod\<close>. Its \<^verbatim>\<open>basicWriter\<close> keeps
  \<^verbatim>\<open>wroteHeader\<close>, \<^verbatim>\<open>code\<close> and \<^verbatim>\<open>bytes\<close>, all zero at construction, and forwards
  to the writer it wraps; \<^verbatim>\<open>Status()\<close> returns \<^verbatim>\<open>code\<close>, "the HTTP status of the
  request, or 0 if one has not yet been sent". The protocol version only selects which
  optional interfaces the observer passes on; every variant embeds the same
  \<^verbatim>\<open>basicWriter\<close>. The wrapped writer is shared with the middleware, which also
  calls it directly, so it is threaded beside the observer.
\<close>

record basicWriter =
  wroteHeader :: bool
  code :: int
  bytes :: int

definition NewWrapResponseWriter :: basicWriter where
  "NewWrapResponseWriter = \<lparr>wroteHeader = False, code = 0, bytes = 0\<rparr>"

definition ww_WriteHeader :: "int \<Rightarrow> basicWriter \<times> ResponseWriter \<Rightarrow> basicWriter \<times> ResponseWriter" where
  "ww_WriteHeader c = (\<lambda>(b, w).
     if \<not> wroteHeader b
     then (b\<lparr>code := c, wroteHeader := True\<rparr>, w @ [WriteHeader c])
     else (b, w))"

definition ww_Write :: "string \<Rightarrow> basicWriter \<times> ResponseWriter \<Rightarrow> basicWriter \<times> ResponseWriter" where
  "ww_Write buf = (\<lambda>bw.
     case (if \<not> wroteHeader (fst bw) then ww_WriteHeader 200 bw else bw) of
       (b, w) \<Rightarrow> (b\<lparr>bytes := bytes b + int (length buf)\<rparr>, w @ [Write buf]))"

text \<open>
  \<^verbatim>\<open>ReadFrom\<close> (of the HTTP/1 variant, no tee being set) writes the header like
  \<^verbatim>\<open>Write\<close> and passes the copy on; its argument here is the bytes copied.
  \<^verbatim>\<open>Flush\<close> sets \<^verbatim>\<open>wroteHeader\<close> without recording a code and flushes the wrapped
  writer.
\<close>

definition ww_ReadFrom :: "string \<Rightarrow> basicWriter \<times> ResponseWriter \<Rightarrow> basicWriter \<times> ResponseWriter" where
  "ww_ReadFrom buf = (\<lambda>bw.
     case (if \<not> wroteHeader (fst bw) then ww_WriteHeader 200 bw else bw) of
       (b, w) \<Rightarrow> (b\<lparr>bytes := bytes b + int (length buf)\<rparr>, w @ [ReadFrom buf]))"

definition ww_Flush :: "basicWriter \<times> ResponseWriter \<Rightarrow> basicWriter \<times> ResponseWriter" where
  "ww_Flush = (\<lambda>(b, w). (b\<lparr>wroteHeader := True\<rparr>, w @ [Flush]))"

definition Status :: "basicWriter \<Rightarrow> int" where
  "Status b = code b"

fun ww_call :: "rw_call \<Rightarrow> basicWriter \<times> ResponseWriter \<Rightarrow> basicWriter \<times> ResponseWriter" where
  "ww_call (WriteHeader c) bw = ww_WriteHeader c bw"
| "ww_call (Write buf) bw = ww_Write buf bw"
| "ww_call (ReadFrom buf) bw = ww_ReadFrom buf bw"
| "ww_call Flush bw = ww_Flush bw"

text \<open>A handler's calls on the observer, replayed in order.\<close>

fun ww_calls :: "rw_call list \<Rightarrow> basicWriter \<times> ResponseWriter \<Rightarrow> basicWriter \<times> ResponseWriter" where
  "ww_calls [] bw = bw"
| "ww_calls (c # cs) bw = ww_calls cs (ww_call c bw)"

subsection \<open>The JSON scanner of \<^verbatim>\<open>encoding/json\<close>\<close>

text \<open>
  \<^verbatim>\<open>formatReqBody\<close> calls \<^verbatim>\<open>json.Unmarshal\<close> and \<^verbatim>\<open>json.Compact\<close> of Go's standard
  library. Both run the same byte-at-a-time scanner: a step function (the current state),
  whether the top-level value has ended, the stack of enclosing objects and arrays
  (innermost first here), and whether an error was recorded.
\<close>

datatype scan_code =
  scanContinue | scanBeginLiteral | scanBeginObject | scanObjectKey | scanObjectValue
  | scanEndObject | scanBeginArray | scanArrayValue | scanEndArray | scanSkipSpace
  | scanEnd | scanError

fun scan_num :: "scan_code \<Rightarrow> nat" where
  "scan_num scanContinue = 0"
| "scan_num scanBeginLiteral = 1"
| "scan_num scanBeginObject = 2"
| "scan_num scanObjectKey = 3"
| "scan_num scanObjectValue = 4"
| "scan_num scanEndObject = 5"
| "scan_num scanBeginArray = 6"
| "scan_num scanArrayValue = 7"
| "scan_num scanEndArray = 8"
| "scan_num scanSkipSpace = 9"
| "scan_num scanEnd = 10"
| "scan_num scanError = 11"

datatype parse_state = parseObjectKey | parseObjectValue | parseArrayValue

datatype step_fn =
  stateBeginValueOrEmpty | stateBeginValue | stateBeginStringOrEmpty | stateBeginString
  | stateEndValue | stateEndTop | stateInString | stateInStringEsc | stateInStringEscU
  | stateInStringEscU1 | stateInStringEscU12 | stateInStringEscU123 | stateNeg | state1
  | state0 | stateDot | stateDot0 | stateE | stateESign | stateE0 | stateT | stateTr
  | stateTru | stateF | stateFa | stateFal | stateFals | stateN | stateNu | stateNul
  | stateError

record scanner =
  step :: step_fn
  endTop :: bool
  parseState :: "parse_state list"
  err :: bool

definition maxNestingDepth :: nat where
  "maxNestingDepth = 10000"

definition newScanner :: scanner where
  "newScanner = \<lparr>step = stateBeginValue, endTop = False, parseState = [], err = False\<rparr>"

definition isSpace :: "char \<Rightarrow> bool" where
  "isSpace c = (c = CHR '' '' \<or> c = CHR 0x09 \<or> c = CHR 0x0D \<or> c = CHR 0x0A)"

definition isDigit :: "char \<Rightarrow> bool" where
  "isDigit c = (c \<in> set ''0123456789'')"

definition isDigit19 :: "char \<Rightarrow> bool" where
  "isDigit19 c = (c \<in> set ''123456789'')"

definition isHex :: "char \<Rightarrow> bool" where
  "isHex c = (c \<in> set ''0123456789abcdefABCDEF'')"

definition scan_error :: "scanner \<Rightarrow> scan_code \<times> scanner" where
  "scan_error s = (scanError, s\<lparr>step := stateError, err := True\<rparr>)"

definition goto :: "scan_code \<Rightarrow> step_fn \<Rightarrow> scanner \<Rightarrow> scan_code \<times> scanner" where
  "goto v f s = (v, s\<lparr>step := f\<rparr>)"

definition pushParseState :: "scanner \<Rightarrow> parse_state \<Rightarrow> scan_code \<Rightarrow> scan_code \<times> scanner" where
  "pushParseState s newParseState successState =
     (let s' = s\<lparr>parseState := newParseState # parseState s\<rparr>
      in if length (parseState s') \<le> maxNestingDepth then (successState, s')
         else scan_error s')"

definition popParseState :: "scanner \<Rightarrow> scanner" where
  "popParseState s =
     (let rest = tl (parseState s)
      in if rest = [] then s\<lparr>parseState := rest, step := stateEndTop, endTop := True\<rparr>
         else s\<lparr>parseState := rest, step := stateEndValue\<rparr>)"

definition do_stateEndTop :: "scanner \<Rightarrow> char \<Rightarrow> scan_code \<times> scanner" where
  "do_stateEndTop s c = (scanEnd, if \<not> isSpace c then snd (scan_error s) else s)"

definition do_stateEndValue :: "scanner \<Rightarrow> char \<Rightarrow> scan_code \<times> scanner" where
  "do_stateEndValue s c =
     (case parseState s of
        [] \<Rightarrow> do_stateEndTop (s\<lparr>step := stateEndTop, endTop := True\<rparr>) c
      | ps # rest \<Rightarrow>
          if isSpace c then goto scanSkipSpace stateEndValue s
          else (case ps of
              parseObjectKey \<Rightarrow>
                if c = CHR '':'' then
                  goto scanObjectKey stateBeginValue (s\<lparr>parseState := parseObjectValue # rest\<rparr>)
                else scan_error s
            | parseObjectValue \<Rightarrow>
                if c = CHR '','' then
                  goto scanObjectValue stateBeginString (s\<lparr>parseState := parseObjectKey # rest\<rparr>)
                else if c = CHR ''}'' then (scanEndObject, popParseState s)
                else scan_error s
            | parseArrayValue \<Rightarrow>
                if c = CHR '','' then goto scanArrayValue stateBeginValue s
                else if c = CHR '']'' then (scanEndArray, popParseState s)
                else scan_error s))"

definition do_stateBeginValue :: "scanner \<Rightarrow> char \<Rightarrow> scan_code \<times> scanner" where
  "do_stateBeginValue s c =
     (if isSpace c then (scanSkipSpace, s)
      else if c = CHR ''{'' then
        pushParseState (s\<lparr>step := stateBeginStringOrEmpty\<rparr>) parseObjectKey scanBeginObject
      else if c = CHR ''['' then
        pushParseState (s\<lparr>step := stateBeginValueOrEmpty\<rparr>) parseArrayValue scanBeginArray
      else if c = CHR 0x22 then goto scanBeginLiteral stateInString s
      else if c = CHR ''-'' then goto scanBeginLiteral stateNeg s
      else if c = CHR ''0'' then goto scanBeginLiteral state0 s
      else if c = CHR ''t'' then goto scanBeginLiteral stateT s
      else if c = CHR ''f'' then goto scanBeginLiteral stateF s
      else if c = CHR ''n'' then goto scanBeginLiteral stateN s
      else if isDigit19 c then goto scanBeginLiteral state1 s
      else scan_error s)"

definition do_stateBeginString :: "scanner \<Rightarrow> char \<Rightarrow> scan_code \<times> scanner" where
  "do_stateBeginString s c =
     (if isSpace c then (scanSkipSpace, s)
      else if c = CHR 0x22 then goto scanBeginLiteral stateInString s
      else scan_error s)"

definition do_state0 :: "scanner \<Rightarrow> char \<Rightarrow> scan_code \<times> scanner" where
  "do_state0 s c =
     (if c = CHR ''.'' then goto scanContinue stateDot s
      else if c = CHR ''e'' \<or> c = CHR ''E'' then goto scanContinue stateE s
      else do_stateEndValue s c)"

definition do_stateESign :: "scanner \<Rightarrow> char \<Rightarrow> scan_code \<times> scanner" where
  "do_stateESign s c = (if isDigit c then goto scanContinue stateE0 s else scan_error s)"

text \<open>One letter of \<^verbatim>\<open>true\<close>, \<^verbatim>\<open>false\<close>, \<^verbatim>\<open>null\<close>, or one hexadecimal digit of
  \<^verbatim>\<open>\u\<close>: the expected byte moves to the next state, any other byte is an error.\<close>

definition expect :: "bool \<Rightarrow> step_fn \<Rightarrow> scanner \<Rightarrow> scan_code \<times> scanner" where
  "expect ok f s = (if ok then goto scanContinue f s else scan_error s)"

definition scan_step :: "scanner \<Rightarrow> char \<Rightarrow> scan_code \<times> scanner" where
  "scan_step s c =
     (case step s of
        stateBeginValueOrEmpty \<Rightarrow>
          if isSpace c then (scanSkipSpace, s)
          else if c = CHR '']'' then do_stateEndValue s c
          else do_stateBeginValue s c
      | stateBeginValue \<Rightarrow> do_stateBeginValue s c
      | stateBeginStringOrEmpty \<Rightarrow>
          if isSpace c then (scanSkipSpace, s)
          else if c = CHR ''}'' then
            do_stateEndValue (s\<lparr>parseState := parseObjectValue # tl (parseState s)\<rparr>) c
          else do_stateBeginString s c
      | stateBeginString \<Rightarrow> do_stateBeginString s c
      | stateEndValue \<Rightarrow> do_stateEndValue s c
      | stateEndTop \<Rightarrow> do_stateEndTop s c
      | stateInString \<Rightarrow>
          if c = CHR 0x22 then goto scanContinue stateEndValue s
          else if c = CHR 0x5C then goto scanContinue stateInStringEsc s
          else if (of_char c :: nat) < 32 then scan_error s
          else (scanContinue, s)
      | stateInStringEsc \<Rightarrow>
          if c \<in> set [CHR ''b'', CHR ''f'', CHR ''n'', CHR ''r'', CHR ''t'', CHR 0x5C, CHR ''/'', CHR 0x22]
          then goto scanContinue stateInString s
          else if c = CHR ''u'' then goto scanContinue stateInStringEscU s
          else scan_error s
      | stateInStringEscU \<Rightarrow> expect (isHex c) stateInStringEscU1 s
      | stateInStringEscU1 \<Rightarrow> expect (isHex c) stateInStringEscU12 s
      | stateInStringEscU12 \<Rightarrow> expect (isHex c) stateInStringEscU123 s
      | stateInStringEscU123 \<Rightarrow> expect (isHex c) stateInString s
      | stateNeg \<Rightarrow>
          if c = CHR ''0'' then goto scanContinue state0 s
          else if isDigit19 c then goto scanContinue state1 s
          else scan_error s
      | state1 \<Rightarrow> if isDigit c then goto scanContinue state1 s else do_state0 s c
      | state0 \<Rightarrow> do_state0 s c
      | stateDot \<Rightarrow> expect (isDigit c) stateDot0 s
      | stateDot0 \<Rightarrow>
          if isDigit c then (scanContinue, s)
          else if c = CHR ''e'' \<or> c = CHR ''E'' then goto scanContinue stateE s
          else do_stateEndValue s c
      | stateE \<Rightarrow>
          if c = CHR ''+'' \<or> c = CHR ''-'' then goto scanContinue stateESign s
          else do_stateESign s c
      | stateESign \<Rightarrow> do_stateESign s c
      | stateE0 \<Rightarrow> if isDigit c then (scanContinue, s) else do_stateEndValue s c
      | stateT \<Rightarrow> expect (c = CHR ''r'') stateTr s
      | stateTr \<Rightarrow> expect (c = CHR ''u'') stateTru s
      | stateTru \<Rightarrow> expect (c = CHR ''e'') stateEndValue s
      | stateF \<Rightarrow> expect (c = CHR ''a'') stateFa s
      | stateFa \<Rightarrow> expect (c = CHR ''l'') stateFal s
      | stateFal \<Rightarrow> expect (c = CHR ''s'') stateFals s
      | stateFals \<Rightarrow> expect (c = CHR ''e'') stateEndValue s
      | stateN \<Rightarrow> expect (c = CHR ''u'') stateNu s
      | stateNu \<Rightarrow> expect (c = CHR ''l'') stateNul s
      | stateNul \<Rightarrow> expect (c = CHR ''l'') stateEndValue s
      | stateError \<Rightarrow> (scanError, s))"

text \<open>\<^verbatim>\<open>scanner.eof\<close>: the input ended; a pending number is closed by one space.\<close>

definition scan_eof :: "scanner \<Rightarrow> scan_code" where
  "scan_eof s =
     (if err s then scanError
      else if endTop s then scanEnd
      else if endTop (snd (scan_step s (CHR '' ''))) then scanEnd
      else scanError)"

text \<open>\<^verbatim>\<open>checkValid\<close>: \<open>True\<close> is the \<^verbatim>\<open>nil\<close> error.\<close>

fun checkValid_loop :: "scanner \<Rightarrow> string \<Rightarrow> bool" where
  "checkValid_loop s [] = (scan_eof s \<noteq> scanError)"
| "checkValid_loop s (c # cs) =
     (case scan_step s c of (v, s') \<Rightarrow> if v = scanError then False else checkValid_loop s' cs)"

definition checkValid :: "string \<Rightarrow> bool" where
  "checkValid data = checkValid_loop newScanner data"

text \<open>
  \<^verbatim>\<open>json.Compact(dst, src)\<close> with an empty \<^verbatim>\<open>dst\<close>: every byte on which the scanner
  answers \<^verbatim>\<open>scanSkipSpace\<close> or above is dropped, the bytes before it (\<^verbatim>\<open>src[start:i]\<close>,
  here \<open>pend\<close>) are written; the loop breaks at \<^verbatim>\<open>scanError\<close>. After the loop an error
  at \<^verbatim>\<open>eof\<close> truncates the buffer and is returned (\<open>None\<close>), otherwise the rest
  \<^verbatim>\<open>src[start:]\<close> is written.
\<close>

fun compact_loop :: "scanner \<Rightarrow> string \<Rightarrow> string \<Rightarrow> string \<Rightarrow> scanner \<times> string \<times> string" where
  "compact_loop s dst pend [] = (s, dst, pend)"
| "compact_loop s dst pend (c # cs) =
     (case scan_step s c of (v, s') \<Rightarrow>
        if scan_num v \<ge> scan_num scanSkipSpace then
          (if v = scanError then (s', dst, pend @ c # cs)
           else compact_loop s' (dst @ pend) [] cs)
        else compact_loop s' dst (pend @ [c]) cs)"

definition json_Compact :: "string \<Rightarrow> string option" where
  "json_Compact src =
     (case compact_loop newScanner [] [] src of
        (s, dst, rest) \<Rightarrow> if scan_eof s = scanError then None else Some (dst @ rest))"

text \<open>
  \<^verbatim>\<open>json.Unmarshal(data, &js)\<close> with \<^verbatim>\<open>js map[string]interface{}\<close> first runs
  \<^verbatim>\<open>checkValid\<close>, then decodes. Decoding into a map stores an object, takes
  \<^verbatim>\<open>null\<close> as a no-op, and records an \<^verbatim>\<open>UnmarshalTypeError\<close> for an array, a
  string, a number or a boolean at the top level; inside the object every value goes into
  an \<^verbatim>\<open>interface{}\<close>, where only a number can fail, when \<^verbatim>\<open>strconv.ParseFloat\<close>
  rejects it as out of range. \<^verbatim>\<open>ParseFloat\<close> is a parameter (\<open>True\<close>: the literal
  converts); the number literals are the runs the scanner reads from a
  \<^verbatim>\<open>scanBeginLiteral\<close> on a digit or a minus sign up to the next byte that is not
  \<^verbatim>\<open>scanContinue\<close>.
\<close>

definition lit_end :: "string option \<Rightarrow> string list" where
  "lit_end cur = (case cur of None \<Rightarrow> [] | Some l \<Rightarrow> [l])"

fun number_literals :: "scanner \<Rightarrow> string option \<Rightarrow> string \<Rightarrow> string list" where
  "number_literals s cur [] = lit_end cur"
| "number_literals s cur (c # cs) =
     (case scan_step s c of (v, s') \<Rightarrow>
        if v = scanBeginLiteral then
          number_literals s' (if c = CHR ''-'' \<or> isDigit c then Some [c] else None) cs
        else if v = scanContinue then number_literals s' (map_option (\<lambda>l. l @ [c]) cur) cs
        else lit_end cur @ number_literals s' None cs)"

definition json_Unmarshal_map :: "(string \<Rightarrow> bool) \<Rightarrow> string \<Rightarrow> bool" where
  "json_Unmarshal_map ParseFloat data =
     (checkValid data \<and>
      (case dropWhile isSpace data of
         [] \<Rightarrow> False
       | c # _ \<Rightarrow>
           c = CHR ''n'' \<or>
           (c = CHR ''{'' \<and> list_all ParseFloat (number_literals newScanner None data))))"

subsection \<open>Log records\<close>

datatype level = InfoLevel | WarnLevel | ErrorLevel

record logFields =
  RemoteIP :: string
  Host :: string
  Method :: string
  Path :: string
  Body :: string
  StatusCode :: int
  Latency :: rat
  Error :: "string option"
  Stack :: "string option"

text \<open>The \<^verbatim>\<open>switch\<close> of lines 124-139: the level and the message of the request's record.\<close>

definition level_msg :: "panic_value option \<Rightarrow> int \<Rightarrow> level \<times> string" where
  "level_msg rvr status =
     (if rvr \<noteq> None then (ErrorLevel, ''panic recover'')
      else if status \<ge> 500 then (ErrorLevel, ''server error'')
      else if status \<ge> 400 then (ErrorLevel, ''client error'')
      else if status \<ge> 300 then (WarnLevel, ''redirect'')
      else if status \<ge> 200 then (InfoLevel, ''success'')
      else if status \<ge> 100 then (InfoLevel, ''informative'')
      else (WarnLevel, ''unknown status''))"

subsection \<open>Requests, handlers and what the run takes from outside\<close>

text \<open>
  A request body is an \<^verbatim>\<open>io.ReadCloser\<close>: the bytes it yields, and whether reading
  ends in an error instead of a clean end of file. \<^verbatim>\<open>io.ReadAll\<close> returns the bytes
  read either way; the middleware drops its error (\<^verbatim>\<open>buf, _ = io.ReadAll(r.Body)\<close>).
\<close>

datatype body = Reader (content: string) (fails: bool)

definition ReadAll :: "body \<Rightarrow> string \<times> bool" where
  "ReadAll b = (content b, fails b)"

definition NewBuffer :: "string \<Rightarrow> body" where
  "NewBuffer buf = Reader buf False"

text \<open>
  \<^verbatim>\<open>http.Header\<close> maps a canonical key to its values. \<^verbatim>\<open>Get\<close> and \<^verbatim>\<open>Set\<close>
  canonicalise the key they are given in the same way; a key of the model stands for its
  canonical form. The context of the request carries at most the logger bound by the
  middleware, kept as the fields bound to it.
\<close>

type_synonym Header = "string \<rightharpoonup> string list"

definition Header_Get :: "Header \<Rightarrow> string \<Rightarrow> string" where
  "Header_Get h key = (case h key of None \<Rightarrow> [] | Some [] \<Rightarrow> [] | Some (v # _) \<Rightarrow> v)"

definition Header_Set :: "Header \<Rightarrow> string \<Rightarrow> string \<Rightarrow> Header" where
  "Header_Set h key v = h(key \<mapsto> [v])"

record request =
  req_Header :: Header
  req_Body :: "body option"
  req_Method :: string
  req_Host :: string
  RemoteAddr :: string
  URL_Path :: string
  ProtoMajor :: int
  req_Context :: "(string \<times> string) list option"

text \<open>
  A handler is run on the request it is given: the calls it makes on its response writer,
  in order, and the value it panics with, if it does. A filter reads the response writer
  and the request.
\<close>

type_synonym Handler = "request \<Rightarrow> rw_call list \<times> panic_value option"

type_synonym Filter = "ResponseWriter \<Rightarrow> request \<Rightarrow> bool"

text \<open>
  How a Go handler ends: it returns, or it panics with a value, which may be \<^verbatim>\<open>nil\<close>.
  Under the \<^verbatim>\<open>go 1.19\<close> of \<^verbatim>\<open>go.mod\<close>, \<^verbatim>\<open>recover()\<close> returns the value the
  handler panicked with, so \<^verbatim>\<open>nil\<close> both after a return and after \<^verbatim>\<open>panic(nil)\<close>.
\<close>

datatype exit = Returns | Panics "panic_value option"

fun recover :: "exit \<Rightarrow> panic_value option" where
  "recover Returns = None"
| "recover (Panics v) = v"

definition go_handler :: "(request \<Rightarrow> rw_call list \<times> exit) \<Rightarrow> Handler" where
  "go_handler h = (\<lambda>r. (fst (h r), recover (snd (h r))))"

text \<open>
  From outside the repository's code: the exported variable \<^verbatim>\<open>RequestIDHeader\<close> (default
  \<^verbatim>\<open>"X-Request-Id"\<close>), the text of \<^verbatim>\<open>uuid.New().String()\<close>, the nanoseconds
  \<^verbatim>\<open>time.Since(start).Nanoseconds()\<close> read in the deferred function, the trace
  \<^verbatim>\<open>debug.Stack()\<close> prints after its first word, and \<^verbatim>\<open>strconv.ParseFloat\<close>.
\<close>

record env =
  RequestIDHeader :: string
  uuid_New_String :: string
  Since_Nanoseconds :: int
  Stack_trace :: string
  ParseFloat :: "string \<Rightarrow> bool"

text \<open>
  \<^verbatim>\<open>debug.Stack()\<close> returns what \<^verbatim>\<open>runtime.Stack\<close> formats for the calling
  goroutine, which begins with the header \<^verbatim>\<open>goroutine N [running]:\<close>; what follows
  the first word is the input.
\<close>

definition debug_Stack :: "env \<Rightarrow> string" where
  "debug_Stack e = ''goroutine '' @ Stack_trace e"

subsection \<open>The log\<close>

datatype field_value = VStr string | VInt int | VFloat64 rat | VErr string | VBytes string

record log_record =
  lvl :: level
  bound :: "(string \<times> string) list"
  embedded :: "(string \<times> field_value) list"
  msg :: string

text \<open>\<^verbatim>\<open>MarshalZerologObject\<close>, lines 34-52.\<close>

definition MarshalZerologObject :: "logFields \<Rightarrow> (string \<times> field_value) list" where
  "MarshalZerologObject l =
     [(''remote_ip'', VStr (RemoteIP l)),
      (''host'', VStr (Host l)),
      (''method'', VStr (Method l)),
      (''path'', VStr (Path l)),
      (''body'', VStr (Body l)),
      (''status_code'', VInt (StatusCode l)),
      (''latency'', VFloat64 (Latency l)),
      (''tag'', VStr ''request'')]
     @ (case Error l of None \<Rightarrow> [] | Some e \<Rightarrow> [(''error'', VErr e)])
     @ (case Stack l of None \<Rightarrow> [] | Some st \<Rightarrow> [(''stack'', VBytes st)])"

subsection \<open>\<^verbatim>\<open>formatReqBody\<close>, lines 149-162\<close>

text \<open>
  The result is the string returned and the records logged on the way. The record of a
  failed compaction goes through the global logger, with no bound field; the text of the
  scanner's error is not modelled, so its \<^verbatim>\<open>error\<close> field is left out.
\<close>

definition formatReqBody :: "(string \<Rightarrow> bool) \<Rightarrow> string \<Rightarrow> string \<times> log_record list" where
  "formatReqBody pf data =
     (if \<not> json_Unmarshal_map pf data then (data, [])
      else (case json_Compact data of
              None \<Rightarrow> ([], [\<lparr>lvl = ErrorLevel, bound = [], embedded = [],
                              msg = ''error compacting body request json''\<rparr>])
            | Some result \<Rightarrow> (result, [])))"

subsection \<open>\<^verbatim>\<open>Middleware\<close>, lines 55-147\<close>

text \<open>Go's integer division truncates towards zero.\<close>

definition quo :: "int \<Rightarrow> int \<Rightarrow> int" where
  "quo a b = sgn a * sgn b * (\<bar>a\<bar> div \<bar>b\<bar>)"

text \<open>
  \<^verbatim>\<open>float64(time.Since(start).Nanoseconds()/1e4) / 100.0\<close>, line 122: the model keeps
  the exact quotient, of which the \<^verbatim>\<open>float64\<close> is the nearest value.
\<close>

definition latency_of :: "int \<Rightarrow> rat" where
  "latency_of ns = of_int (quo ns 10000) / 100"

text \<open>
  The deferred function, lines 100-141, on the value \<^verbatim>\<open>recover()\<close> returned. It gives
  the calls the original writer has received, the records logged and the panic that
  leaves the middleware.
\<close>

definition deferred ::
  "env \<Rightarrow> (string \<times> string) list \<Rightarrow> logFields \<Rightarrow> basicWriter \<times> ResponseWriter
     \<Rightarrow> panic_value option \<Rightarrow> ResponseWriter \<times> log_record list \<times> panic_value option" where
  "deferred e ctx fields0 bw rvr =
     (if rvr = Some ErrAbortHandler then (snd bw, [], Some ErrAbortHandler)
      else
        let (fields1, w1) =
              (case rvr of
                 None \<Rightarrow> (fields0, snd bw)
               | Some v \<Rightarrow>
                   (fields0\<lparr>Error := Some (coerce_error v), Stack := Some (debug_Stack e)\<rparr>,
                    snd bw @ [WriteHeader 500]));
            fields2 = fields1\<lparr>StatusCode := Status (fst bw),
                              Latency := latency_of (Since_Nanoseconds e)\<rparr>;
            (l, m) = level_msg rvr (StatusCode fields2)
        in (w1,
            [\<lparr>lvl = l, bound = ctx, embedded = MarshalZerologObject fields2, msg = m\<rparr>],
            None))"

record result =
  res_w :: ResponseWriter
  res_log :: "log_record list"
  res_panic :: "panic_value option"
  handler_request :: request

text \<open>\<^verbatim>\<open>filter != nil && filter(w, r)\<close>, line 59.\<close>

definition filtered :: "Filter option \<Rightarrow> ResponseWriter \<Rightarrow> request \<Rightarrow> bool" where
  "filtered flt w r = (case flt of None \<Rightarrow> False | Some f \<Rightarrow> f w r)"

text \<open>Lines 69-71: a request without a request id is given a new one, in its header.\<close>

definition set_request_id :: "env \<Rightarrow> request \<Rightarrow> request" where
  "set_request_id e r =
     (if Header_Get (req_Header r) (RequestIDHeader e) = []
      then r\<lparr>req_Header := Header_Set (req_Header r) (RequestIDHeader e) (uuid_New_String e)\<rparr>
      else r)"

text \<open>Lines 83-89: the body is read whole and replaced by a reader of the bytes read; a
  \<^verbatim>\<open>nil\<close> body leaves \<^verbatim>\<open>buf\<close> \<^verbatim>\<open>nil\<close> (no bytes) and the request as it is.\<close>

definition read_body :: "request \<Rightarrow> string \<times> request" where
  "read_body r =
     (case req_Body r of
        None \<Rightarrow> ([], r)
      | Some b \<Rightarrow> (fst (ReadAll b), r\<lparr>req_Body := Some (NewBuffer (fst (ReadAll b)))\<rparr>))"

text \<open>Lines 92-98: the fields known before the handler runs; the others hold Go's zero
  values.\<close>

definition new_logFields :: "request \<Rightarrow> string \<Rightarrow> logFields" where
  "new_logFields r body =
     \<lparr>RemoteIP = RemoteAddr r, Host = req_Host r, Method = req_Method r, Path = URL_Path r,
      Body = body, StatusCode = 0, Latency = 0, Error = None, Stack = None\<rparr>"

definition Middleware :: "env \<Rightarrow> Filter option \<Rightarrow> Handler \<Rightarrow> ResponseWriter \<Rightarrow> request \<Rightarrow> result" where
  "Middleware e flt next w r =
     (if filtered flt w r then
        (case next r of (cs, p) \<Rightarrow>
           \<lparr>res_w = w @ cs, res_log = [], res_panic = p, handler_request = r\<rparr>)
      else
        let r1 = set_request_id e r;
            ctx = [(''request_id'', Header_Get (req_Header r1) (RequestIDHeader e))];
            ww = NewWrapResponseWriter;
            (buf, r2) = read_body r1;
            (body, log0) = formatReqBody (ParseFloat e) buf;
            fields0 = new_logFields r2 body;
            r3 = r2\<lparr>req_Context := Some ctx\<rparr>;
            (cs, p) = next r3;
            (w', logs, out) = deferred e ctx fields0 (ww_calls cs (ww, w)) p
        in \<lparr>res_w = w', res_log = log0 @ logs, res_panic = out, handler_request = r3\<rparr>)"

subsection \<open>Names for the parts of a run\<close>

text \<open>
  The records of a log that carry \<^verbatim>\<open>tag: "request"\<close>; the request id the middleware
  binds to the logger; the request the handler is called with
  (\<^verbatim>\<open>r.WithContext(ctx)\<close>, after lines 69-71 and 83-89); the result of
  \<^verbatim>\<open>formatReqBody(buf)\<close>; and the fields as the deferred function leaves them.
\<close>

definition request_records :: "log_record list \<Rightarrow> log_record list" where
  "request_records logs =
     filter (\<lambda>rc. map_of (embedded rc) ''tag'' = Some (VStr ''request'')) logs"

definition request_id_of :: "env \<Rightarrow> request \<Rightarrow> string" where
  "request_id_of e r = Header_Get (req_Header (set_request_id e r)) (RequestIDHeader e)"

definition handler_req :: "env \<Rightarrow> request \<Rightarrow> request" where
  "handler_req e r =
     (snd (read_body (set_request_id e r)))
       \<lparr>req_Context := Some [(''request_id'', request_id_of e r)]\<rparr>"

definition logged_body :: "env \<Rightarrow> request \<Rightarrow> string \<times> log_record list" where
  "logged_body e r = formatReqBody (ParseFloat e) (fst (read_body (set_request_id e r)))"

definition final_fields :: "env \<Rightarrow> request \<Rightarrow> basicWriter \<Rightarrow> panic_value option \<Rightarrow> logFields" where
  "final_fields e r b rvr =
     (new_logFields (snd (read_body (set_request_id e r))) (fst (logged_body e r)))
       \<lparr>StatusCode := Status b, Latency := latency_of (Since_Nanoseconds e),
        Error := map_option coerce_error rvr,
        Stack := (case rvr of None \<Rightarrow> None | Some v \<Rightarrow> Some (debug_Stack e))\<rparr>"

text \<open>
  What a sequence of calls on a fresh observer leaves as its status: the first call
  decides, a \<^verbatim>\<open>WriteHeader\<close> by its code, a \<^verbatim>\<open>Write\<close> or a \<^verbatim>\<open>ReadFrom\<close>
  by the 200 it implies, a \<^verbatim>\<open>Flush\<close> by leaving the code at 0 for good; 0 also
  when there was no call. And the body bytes a sequence of calls writes.
\<close>

fun written_status :: "rw_call list \<Rightarrow> int" where
  "written_status [] = 0"
| "written_status (WriteHeader c # cs) = c"
| "written_status (Write buf # cs) = 200"
| "written_status (ReadFrom buf # cs) = 200"
| "written_status (Flush # cs) = 0"

fun body_sent :: "rw_call list \<Rightarrow> string" where
  "body_sent [] = []"
| "body_sent (WriteHeader c # cs) = body_sent cs"
| "body_sent (Write buf # cs) = buf @ body_sent cs"
| "body_sent (ReadFrom buf # cs) = buf @ body_sent cs"
| "body_sent (Flush # cs) = body_sent cs"

text \<open>
  Two conditions on a scanner: it has recorded an error exactly when its step function is
  \<^verbatim>\<open>stateError\<close> (so it is at every step of a run), and it has recorded an error.
\<close>

definition dead :: "scanner \<Rightarrow> bool" where
  "dead s = (err s \<and> step s = stateError)"

definition sane :: "scanner \<Rightarrow> bool" where
  "sane s = (err s = (step s = stateError))"

subsection \<open>Sample runs\<close>

definition env0 :: env where
  "env0 = \<lparr>RequestIDHeader = ''X-Request-Id'',
           uuid_New_String = ''9627a4a0-9d94-4ab6-844c-9599c0a15cd0'',
           Since_Nanoseconds = 1234567,
           Stack_trace = ''1 [running]:'',
           ParseFloat = (\<lambda>l. True)\<rparr>"

definition req0 :: request where
  "req0 = \<lparr>req_Header = Map.empty, req_Body = None, req_Method = ''GET'',
           req_Host = ''localhost:8080'', RemoteAddr = ''[::1]:62542'', URL_Path = ''/'',
           ProtoMajor = 1, req_Context = None\<rparr>"

text \<open>Handlers: one that sets a status and returns, one that returns having written
  nothing, one that panics having written nothing, one that writes a header and then
  panics.\<close>

definition h_status :: "int \<Rightarrow> Handler" where
  "h_status c = (\<lambda>r. ([WriteHeader c], None))"

definition h_silent :: Handler where
  "h_silent = (\<lambda>r. ([], None))"

definition h_panic :: "panic_value \<Rightarrow> Handler" where
  "h_panic v = (\<lambda>r. ([], Some v))"

definition h_header_panic :: "int \<Rightarrow> panic_value \<Rightarrow> Handler" where
  "h_header_panic c v = (\<lambda>r. ([WriteHeader c], Some v))"

text \<open>A handler that calls \<^verbatim>\<open>panic(nil)\<close> having written nothing, and one that
  flushes, then sets a status and returns.\<close>

definition h_panic_nil :: Handler where
  "h_panic_nil = go_handler (\<lambda>r. ([], Panics None))"

definition h_flush_status :: "int \<Rightarrow> Handler" where
  "h_flush_status c = (\<lambda>r. ([Flush, WriteHeader c], None))"

text \<open>The filter of the README, and requests with a request id and with a body whose
  reading ends in an error.\<close>

definition healthcheck :: Filter where
  "healthcheck = (\<lambda>w r. URL_Path r = ''/healthcheck'')"

definition req_health :: request where
  "req_health = req0\<lparr>URL_Path := ''/healthcheck''\<rparr>"

definition req_with_id :: request where
  "req_with_id = req0\<lparr>req_Header := [''X-Request-Id'' \<mapsto> [''abc-123'']]\<rparr>"

definition req_post :: request where
  "req_post = req0\<lparr>req_Method := ''POST'', req_Body := Some (Reader ''hello'' True)\<rparr>"

text \<open>A request with a JSON object as its body.\<close>

definition req_json :: request where
  "req_json = req0\<lparr>req_Method := ''POST'',
     req_Body := Some (Reader ''{ \"a b\" : [1, 2] }'' False)\<rparr>"

section \<open>Properties\<close>

subsection \<open>The scanner, \<^verbatim>\<open>Compact\<close> and \<^verbatim>\<open>formatReqBody\<close>\<close>

lemmas scan_defs = scan_step_def do_stateBeginValue_def do_stateBeginString_def
  do_stateEndValue_def do_stateEndTop_def do_state0_def do_stateESign_def expect_def
  goto_def scan_error_def pushParseState_def popParseState_def

lemma scan_step_sane:
  "sane s \<Longrightarrow> scan_step s c = (v, s') \<Longrightarrow> sane s'"
  by (cases "step s")
    (auto simp: sane_def scan_defs Let_def split: if_splits list.splits parse_state.splits)

lemma scan_step_error:
  "sane s \<Longrightarrow> scan_step s c = (scanError, s') \<Longrightarrow> dead s'"
  by (cases "step s")
    (auto simp: sane_def dead_def scan_defs Let_def split: if_splits list.splits parse_state.splits)

lemma scan_step_drop:
  "sane s \<Longrightarrow> scan_step s c = (v, s') \<Longrightarrow> v = scanSkipSpace \<or> v = scanEnd \<Longrightarrow> isSpace c \<or> dead s'"
  by (cases "step s")
    (auto simp: sane_def dead_def scan_defs Let_def split: if_splits list.splits parse_state.splits)

lemma scan_step_dead: "dead s \<Longrightarrow> scan_step s c = (scanError, s)"
  by (simp add: dead_def scan_step_def)


lemma sane_new: "sane newScanner"
  by (simp add: sane_def newScanner_def)

lemma scan_eof_dead: "sane s \<Longrightarrow> scan_eof s \<noteq> scanError \<Longrightarrow> \<not> dead s"
  by (auto simp: scan_eof_def dead_def)

lemma compact_loop_dead:
  "dead s \<Longrightarrow> fst (compact_loop s dst pend data) = s"
  by (cases data) (simp_all add: scan_step_dead)

text \<open>Where \<^verbatim>\<open>checkValid\<close> accepts, the loop of \<^verbatim>\<open>Compact\<close> ends in a scanner that
  accepts the end of the input.\<close>

lemma compact_loop_valid:
  "checkValid_loop s data \<Longrightarrow> scan_eof (fst (compact_loop s dst pend data)) \<noteq> scanError"
proof (induction data arbitrary: s dst pend)
  case Nil
  then show ?case by simp
next
  case (Cons c cs)
  obtain v s' where st: "scan_step s c = (v, s')" by (cases "scan_step s c")
  with Cons.prems have v: "v \<noteq> scanError" and rest: "checkValid_loop s' cs"
    by (auto split: if_splits)
  show ?case
    using st v Cons.IH[OF rest] by simp
qed

lemma Compact_of_valid: "checkValid data \<Longrightarrow> \<exists>out. json_Compact data = Some out"
  using compact_loop_valid[of newScanner data "[]" "[]"]
  by (simp add: checkValid_def json_Compact_def case_prod_beta)

text \<open>A loop of \<^verbatim>\<open>Compact\<close> that ends without an error has written the bytes it was
  given less some white space, in their order.\<close>

lemma compact_loop_kept:
  assumes "sane s" and "compact_loop s dst pend data = (s', d, rest)" and "\<not> dead s'"
  shows "\<exists>kept. d @ rest = dst @ pend @ kept \<and> subseq kept data
           \<and> filter (\<lambda>c. \<not> isSpace c) kept = filter (\<lambda>c. \<not> isSpace c) data"
  using assms
proof (induction data arbitrary: s dst pend)
  case Nil
  then show ?case by auto
next
  case (Cons c cs)
  obtain v s1 where st: "scan_step s c = (v, s1)" by (cases "scan_step s c")
  have s1: "sane s1" using scan_step_sane[OF Cons.prems(1) st] .
  show ?case
  proof (cases "v = scanError")
    case True
    then have "dead s1" using scan_step_error[OF Cons.prems(1)] st by simp
    moreover have "s' = s1" using Cons.prems(2) st True by simp
    ultimately show ?thesis using Cons.prems(3) by simp
  next
    case False
    show ?thesis
    proof (cases "v = scanSkipSpace \<or> v = scanEnd")
      case True
      then have loop: "compact_loop s1 (dst @ pend) [] cs = (s', d, rest)"
        using Cons.prems(2) st by auto
      have "\<not> dead s1"
        using compact_loop_dead[of s1 "dst @ pend" "[]" cs] loop Cons.prems(3) by auto
      then have sp: "isSpace c" using scan_step_drop[OF Cons.prems(1) st True] by simp
      obtain kept where k: "d @ rest = (dst @ pend) @ [] @ kept" "subseq kept cs"
          "filter (\<lambda>c. \<not> isSpace c) kept = filter (\<lambda>c. \<not> isSpace c) cs"
        using Cons.IH[OF s1 loop Cons.prems(3)] by blast
      show ?thesis
        using k sp by (intro exI[of _ kept]) (simp add: list_emb_Cons)
    next
      case other: False
      then have "scan_num v < 9" using False by (cases v) simp_all
      then have loop: "compact_loop s1 dst (pend @ [c]) cs = (s', d, rest)"
        using Cons.prems(2) st by simp
      obtain kept where k: "d @ rest = dst @ (pend @ [c]) @ kept" "subseq kept cs"
          "filter (\<lambda>c. \<not> isSpace c) kept = filter (\<lambda>c. \<not> isSpace c) cs"
        using Cons.IH[OF s1 loop Cons.prems(3)] by blast
      show ?thesis
        using k by (intro exI[of _ "c # kept"]) simp
    qed
  qed
qed

lemma Compact_kept:
  assumes "json_Compact data = Some out"
  shows "subseq out data \<and> filter (\<lambda>c. \<not> isSpace c) out = filter (\<lambda>c. \<not> isSpace c) data"
proof -
  obtain s' d rest where lp: "compact_loop newScanner [] [] data = (s', d, rest)"
    by (cases "compact_loop newScanner [] [] data") auto
  with assms have eof: "scan_eof s' \<noteq> scanError" and out: "out = d @ rest"
    by (auto simp: json_Compact_def split: if_splits)
  have "\<not> dead s'" using eof by (auto simp: scan_eof_def dead_def)
  from compact_loop_kept[OF sane_new lp this] out show ?thesis by auto
qed

lemma formatReqBody_no_record: "snd (formatReqBody pf data) = []"
  using Compact_of_valid[of data]
  by (auto simp: formatReqBody_def json_Unmarshal_map_def split: option.splits)

lemma Marshal_body: "map_of (MarshalZerologObject l) ''body'' = Some (VStr (Body l))"
  by (simp add: MarshalZerologObject_def)

lemma read_body_bytes:
  "fst (read_body r) = (case req_Body r of None \<Rightarrow> [] | Some b \<Rightarrow> content b)"
  by (simp add: read_body_def ReadAll_def split: option.splits)

lemma set_request_id_body: "req_Body (set_request_id e r) = req_Body r"
  by (simp add: set_request_id_def)

lemma formatReqBody_accepted:
  assumes "json_Unmarshal_map pf data"
  shows "\<exists>out. formatReqBody pf data = (out, []) \<and> json_Compact data = Some out"
proof -
  have "checkValid data" using assms by (simp add: json_Unmarshal_map_def)
  then obtain out where "json_Compact data = Some out" using Compact_of_valid by blast
  then show ?thesis using assms by (simp add: formatReqBody_def)
qed

subsection \<open>The shape of a run\<close>

lemma handler_request_unfiltered:
  "\<not> filtered flt w r \<Longrightarrow> handler_request (Middleware e flt next w r) = handler_req e r"
  by (simp add: Middleware_def handler_req_def request_id_of_def Let_def case_prod_beta)

lemma deferred_abort:
  "deferred e ctx f bw (Some ErrAbortHandler) = (snd bw, [], Some ErrAbortHandler)"
  by (simp add: deferred_def)

lemma deferred_return:
  "deferred e ctx f bw None =
     (snd bw,
      [\<lparr>lvl = fst (level_msg None (Status (fst bw))), bound = ctx,
        embedded = MarshalZerologObject
          (f\<lparr>StatusCode := Status (fst bw), Latency := latency_of (Since_Nanoseconds e)\<rparr>),
        msg = snd (level_msg None (Status (fst bw)))\<rparr>],
      None)"
  by (simp add: deferred_def Let_def case_prod_beta)

lemma deferred_recover:
  "v \<noteq> ErrAbortHandler \<Longrightarrow> deferred e ctx f bw (Some v) =
     (snd bw @ [WriteHeader 500],
      [\<lparr>lvl = ErrorLevel, bound = ctx,
        embedded = MarshalZerologObject
          (f\<lparr>Error := Some (coerce_error v), Stack := Some (debug_Stack e),
             StatusCode := Status (fst bw), Latency := latency_of (Since_Nanoseconds e)\<rparr>),
        msg = ''panic recover''\<rparr>],
      None)"
  by (simp add: deferred_def Let_def case_prod_beta level_msg_def)

lemma Middleware_unfiltered:
  "\<not> filtered flt w r \<Longrightarrow> Middleware e flt next w r =
     (let d = deferred e [(''request_id'', request_id_of e r)]
                (new_logFields (snd (read_body (set_request_id e r))) (fst (logged_body e r)))
                (ww_calls (fst (next (handler_req e r))) (NewWrapResponseWriter, w))
                (snd (next (handler_req e r)))
      in \<lparr>res_w = fst d, res_log = snd (logged_body e r) @ fst (snd d),
          res_panic = snd (snd d), handler_request = handler_req e r\<rparr>)"
  by (simp add: Middleware_def handler_req_def request_id_of_def logged_body_def Let_def case_prod_beta)

lemma formatReqBody_untagged:
  "request_records (snd (formatReqBody pf data)) = []"
  by (simp add: formatReqBody_def request_records_def split: option.splits)

lemma Marshal_tag: "map_of (MarshalZerologObject l) ''tag'' = Some (VStr ''request'')"
  by (simp add: MarshalZerologObject_def)

lemma Marshal_status: "map_of (MarshalZerologObject l) ''status_code'' = Some (VInt (StatusCode l))"
  by (simp add: MarshalZerologObject_def)

lemma request_records_append:
  "request_records (xs @ ys) = request_records xs @ request_records ys"
  by (simp add: request_records_def)

lemma request_records_unfiltered:
  assumes "\<not> filtered flt w r" and "snd (next (handler_req e r)) \<noteq> Some ErrAbortHandler"
  shows "request_records (res_log (Middleware e flt next w r)) =
     [\<lparr>lvl = fst (level_msg (snd (next (handler_req e r)))
                (Status (fst (ww_calls (fst (next (handler_req e r))) (NewWrapResponseWriter, w))))),
       bound = [(''request_id'', request_id_of e r)],
       embedded = MarshalZerologObject (final_fields e r
          (fst (ww_calls (fst (next (handler_req e r))) (NewWrapResponseWriter, w)))
          (snd (next (handler_req e r)))),
       msg = snd (level_msg (snd (next (handler_req e r)))
                (Status (fst (ww_calls (fst (next (handler_req e r))) (NewWrapResponseWriter, w)))))\<rparr>]"
proof (cases "snd (next (handler_req e r))")
  case None
  then show ?thesis
    using assms(1)
    by (simp add: Middleware_unfiltered Let_def deferred_return request_records_append
        formatReqBody_untagged logged_body_def[symmetric] final_fields_def)
      (simp add: request_records_def Marshal_tag logged_body_def new_logFields_def formatReqBody_untagged[unfolded request_records_def])
next
  case (Some v)
  then have "v \<noteq> ErrAbortHandler" using assms(2) by simp
  then show ?thesis
    using assms(1) Some
    by (simp add: Middleware_unfiltered Let_def deferred_recover request_records_append
        final_fields_def level_msg_def)
      (simp add: request_records_def Marshal_tag logged_body_def new_logFields_def formatReqBody_untagged[unfolded request_records_def])
qed

lemma res_log_unfiltered:
  assumes "\<not> filtered flt w r" and "snd (next (handler_req e r)) \<noteq> Some ErrAbortHandler"
  shows "res_log (Middleware e flt next w r) = request_records (res_log (Middleware e flt next w r))"
proof -
  have nolog: "snd (logged_body e r) = []"
    by (simp add: logged_body_def formatReqBody_no_record)
  show ?thesis
    using assms nolog
    by (cases "snd (next (handler_req e r))")
      (simp_all add: Middleware_unfiltered Let_def deferred_return deferred_recover
        request_records_def Marshal_tag)
qed

subsection \<open>The three ways a run ends, the request id, the latency\<close>

lemma run_return:
  assumes "\<not> filtered flt w r" and "next (handler_req e r) = (cs, None)"
  shows "res_w (Middleware e flt next w r) = snd (ww_calls cs (NewWrapResponseWriter, w))"
    and "res_panic (Middleware e flt next w r) = None"
  using assms by (simp_all add: Middleware_unfiltered Let_def deferred_return)

lemma run_recover:
  assumes "\<not> filtered flt w r" and "next (handler_req e r) = (cs, Some v)"
    and "v \<noteq> ErrAbortHandler"
  shows "res_w (Middleware e flt next w r) =
           snd (ww_calls cs (NewWrapResponseWriter, w)) @ [WriteHeader 500]"
    and "res_panic (Middleware e flt next w r) = None"
  using assms by (simp_all add: Middleware_unfiltered Let_def deferred_recover)

lemma run_abort:
  assumes "\<not> filtered flt w r" and "next (handler_req e r) = (cs, Some ErrAbortHandler)"
  shows "res_w (Middleware e flt next w r) = snd (ww_calls cs (NewWrapResponseWriter, w))"
    and "res_panic (Middleware e flt next w r) = Some ErrAbortHandler"
    and "res_log (Middleware e flt next w r) = snd (logged_body e r)"
  using assms by (simp_all add: Middleware_unfiltered Let_def deferred_abort)

lemma client_status_append:
  "client_status (xs @ ys) = (case client_status xs of None \<Rightarrow> client_status ys | Some c \<Rightarrow> Some c)"
  by (cases xs rule: client_status.cases) simp_all

lemma read_body_header: "req_Header (snd (read_body r)) = req_Header r"
  by (simp add: read_body_def split: option.splits)

lemma handler_req_header:
  "Header_Get (req_Header (handler_req e r)) (RequestIDHeader e) = request_id_of e r"
  by (simp add: handler_req_def request_id_of_def read_body_header)

lemma request_id_of_cases:
  "request_id_of e r =
     (if Header_Get (req_Header r) (RequestIDHeader e) = [] then uuid_New_String e
      else Header_Get (req_Header r) (RequestIDHeader e))"
  by (simp add: request_id_of_def set_request_id_def Header_Get_def Header_Set_def)

lemma quo_nonneg: "0 \<le> a \<Longrightarrow> quo a 10000 = a div 10000"
  by (cases "a = 0") (simp_all add: quo_def)

lemma latency_bounds:
  assumes "0 \<le> ns"
  shows "latency_of ns = of_int (ns div 10000) / 100"
    and "0 \<le> latency_of ns"
    and "latency_of ns \<le> of_int ns / 1000000"
    and "of_int ns / 1000000 < latency_of ns + 1 / 100"
proof -
  show eq: "latency_of ns = of_int (ns div 10000) / 100"
    using assms by (simp add: latency_of_def quo_nonneg)
  have q0: "0 \<le> ns div 10000" using assms by simp
  show "0 \<le> latency_of ns" using q0 by (simp add: eq)
  have lo: "(ns div 10000) * 10000 \<le> ns" by simp
  have hi: "ns < (ns div 10000 + 1) * 10000"
    by presburger
  have lo': "(of_int ((ns div 10000) * 10000) :: rat) \<le> of_int ns"
    using lo by (simp only: of_int_le_iff)
  have hi': "(of_int ns :: rat) < of_int ((ns div 10000 + 1) * 10000)"
    using hi by (simp only: of_int_less_iff)
  show "latency_of ns \<le> of_int ns / 1000000"
    using lo' by (simp add: eq field_simps)
  show "of_int ns / 1000000 < latency_of ns + 1 / 100"
    using hi' by (simp add: eq field_simps)
qed

lemma Marshal_latency: "map_of (MarshalZerologObject l) ''latency'' = Some (VFloat64 (Latency l))"
  by (simp add: MarshalZerologObject_def)

subsection \<open>The observer\<close>

lemmas ww_defs = ww_WriteHeader_def ww_Write_def ww_ReadFrom_def ww_Flush_def

lemma ww_calls_wrote:
  "wroteHeader b \<Longrightarrow> code (fst (ww_calls cs (b, w))) = code b \<and> wroteHeader (fst (ww_calls cs (b, w)))"
proof (induction cs arbitrary: b w)
  case Nil
  then show ?case by simp
next
  case (Cons c cs)
  then show ?case
    by (cases c) (simp_all add: ww_defs)
qed

lemma Status_ww_calls:
  "Status (fst (ww_calls cs (NewWrapResponseWriter, w))) = written_status cs"
proof (cases cs)
  case Nil
  then show ?thesis by (simp add: Status_def NewWrapResponseWriter_def)
next
  case (Cons c cs')
  then show ?thesis
    by (cases c)
      (simp_all add: Status_def NewWrapResponseWriter_def ww_defs ww_calls_wrote)
qed

lemma body_sent_append: "body_sent (xs @ ys) = body_sent xs @ body_sent ys"
  by (induction xs rule: body_sent.induct) simp_all

text \<open>One call on the observer: what it passes on to the wrapped writer.\<close>

lemma ww_call_step:
  "\<exists>b' f. ww_call c (b, w) = (b', w @ f) \<and> wroteHeader b' \<and> body_sent f = body_sent [c]
     \<and> (wroteHeader b \<longrightarrow> (\<forall>k. WriteHeader k \<notin> set f))
     \<and> (\<not> wroteHeader b \<longrightarrow> client_status f = client_status [c])"
  by (cases c) (simp_all add: ww_defs)

lemma ww_calls_prefix:
  "\<exists>fw. snd (ww_calls cs (b, w)) = w @ fw \<and> body_sent fw = body_sent cs
     \<and> (wroteHeader b \<longrightarrow> (\<forall>c. WriteHeader c \<notin> set fw))
     \<and> (\<not> wroteHeader b \<longrightarrow> client_status fw = client_status cs)"
proof (induction cs arbitrary: b w)
  case Nil
  then show ?case by simp
next
  case (Cons c cs)
  obtain b' f where st: "ww_call c (b, w) = (b', w @ f)" "wroteHeader b'"
      "body_sent f = body_sent [c]"
      "wroteHeader b \<longrightarrow> (\<forall>k. WriteHeader k \<notin> set f)"
      "\<not> wroteHeader b \<longrightarrow> client_status f = client_status [c]"
    using ww_call_step[of c b w] by blast
  obtain fw where fw: "snd (ww_calls cs (b', w @ f)) = (w @ f) @ fw"
      "body_sent fw = body_sent cs" "\<forall>k. WriteHeader k \<notin> set fw"
    using Cons.IH[of b' "w @ f"] st(2) by blast
  have one: "client_status [c] = client_status (c # cs)" "client_status [c] \<noteq> None"
    by (cases c; simp)+
  have body: "body_sent (c # cs) = body_sent [c] @ body_sent cs"
    by (cases c) simp_all
  have cl: "\<not> wroteHeader b \<longrightarrow> client_status (f @ fw) = client_status (c # cs)"
    using st(5) one by (auto simp: client_status_append split: option.splits)
  show ?case
    using st fw body cl
    by (intro exI[of _ "f @ fw"]) (simp add: body_sent_append)
qed

subsection \<open>Finalize and log, once\<close>

text \<open>
  C1. For every request the middleware processes (no filter, or a filter that answers
  false), whatever the handler does: when it returns, or panics with a value other than
  \<^verbatim>\<open>http.ErrAbortHandler\<close>, exactly one record is logged, the request's, and no
  panic leaves the middleware; when it panics with \<^verbatim>\<open>http.ErrAbortHandler\<close>, no
  record is logged, the same value is raised again, and the original writer receives
  nothing beyond what the handler wrote through the observer.
\<close>

theorem finalize_and_log_exactly_once:
  assumes "\<not> filtered flt w r"
    and "next (handler_request (Middleware e flt next w r)) = (cs, p)"
  shows "if p = Some ErrAbortHandler
         then res_log (Middleware e flt next w r) = []
            \<and> res_panic (Middleware e flt next w r) = Some ErrAbortHandler
            \<and> res_w (Middleware e flt next w r) = snd (ww_calls cs (NewWrapResponseWriter, w))
         else (\<exists>rc. res_log (Middleware e flt next w r) = [rc]
                 \<and> map_of (embedded rc) ''tag'' = Some (VStr ''request''))
            \<and> res_panic (Middleware e flt next w r) = None"
proof -
  have hr: "next (handler_req e r) = (cs, p)"
    using assms by (simp add: handler_request_unfiltered)
  show ?thesis
  proof (cases "p = Some ErrAbortHandler")
    case True
    then show ?thesis
      using run_abort[OF assms(1), of "next" e cs] hr
      by (simp add: logged_body_def formatReqBody_no_record)
  next
    case False
    have all: "res_log (Middleware e flt next w r)
        = request_records (res_log (Middleware e flt next w r))"
      using False hr assms(1) by (intro res_log_unfiltered) simp_all
    have one: "\<exists>rc. request_records (res_log (Middleware e flt next w r)) = [rc]
        \<and> map_of (embedded rc) ''tag'' = Some (VStr ''request'')"
      using False hr assms(1) by (simp add: request_records_unfiltered Marshal_tag)
    have "res_panic (Middleware e flt next w r) = None"
    proof (cases p)
      case None
      then show ?thesis using run_return(2)[OF assms(1), of "next" e cs] hr by simp
    next
      case (Some v)
      then show ?thesis using run_recover(2)[OF assms(1), of "next" e cs v] hr False by simp
    qed
    with one all False show ?thesis by simp
  qed
qed

theorem finalize_and_log_exactly_once_witness:
  "\<not> filtered None [] req0
   \<and> (\<exists>rc. res_log (Middleware env0 None (h_panic (OtherValue ''boom'')) [] req0) = [rc]
        \<and> map_of (embedded rc) ''tag'' = Some (VStr ''request''))
   \<and> res_panic (Middleware env0 None (h_panic (OtherValue ''boom'')) [] req0) = None
   \<and> res_log (Middleware env0 None (h_panic ErrAbortHandler) [] req0) = []
   \<and> res_panic (Middleware env0 None (h_panic ErrAbortHandler) [] req0) = Some ErrAbortHandler"
  using finalize_and_log_exactly_once
      [of None "[]" req0 "h_panic (OtherValue ''boom'')" env0 "[]" "Some (OtherValue ''boom'')"]
    finalize_and_log_exactly_once
      [of None "[]" req0 "h_panic ErrAbortHandler" env0 "[]" "Some ErrAbortHandler"]
  by (simp add: filtered_def h_panic_def)

subsection \<open>A recovered panic\<close>

text \<open>
  C2, as amended. For every request whose handler panics with a value that is not
  \<^verbatim>\<open>nil\<close> and not the abort sentinel, the middleware turns the value into an error
  (its own text if it is an error, its \<^verbatim>\<open>%v\<close> rendering otherwise), takes the stack
  trace, calls \<^verbatim>\<open>WriteHeader(500)\<close> on the original writer, and logs one request
  record at level error with message "panic recover" that carries the error and a stack
  trace that is not empty. The client is sent 500 when no header had been written before
  the panic; a status already sent stands.
\<close>

theorem recovered_panic_logged_and_500_written:
  assumes "\<not> filtered flt w r"
    and "next (handler_request (Middleware e flt next w r)) = (cs, Some v)"
    and "v \<noteq> ErrAbortHandler"
  shows "res_panic (Middleware e flt next w r) = None
     \<and> res_w (Middleware e flt next w r) =
         snd (ww_calls cs (NewWrapResponseWriter, w)) @ [WriteHeader 500]
     \<and> client_status (res_w (Middleware e flt next w r)) =
         (case client_status (snd (ww_calls cs (NewWrapResponseWriter, w))) of
            None \<Rightarrow> Some 500 | Some c \<Rightarrow> Some c)
     \<and> (\<exists>rc st. res_log (Middleware e flt next w r) = [rc]
            \<and> lvl rc = ErrorLevel \<and> msg rc = ''panic recover''
            \<and> map_of (embedded rc) ''error'' = Some (VErr (coerce_error v))
            \<and> map_of (embedded rc) ''stack'' = Some (VBytes st) \<and> st \<noteq> [])"
proof -
  have hr: "next (handler_req e r) = (cs, Some v)"
    using assms by (simp add: handler_request_unfiltered)
  have p: "res_panic (Middleware e flt next w r) = None"
    using assms(1,3) hr by (simp add: run_recover(2))
  have w: "res_w (Middleware e flt next w r) =
         snd (ww_calls cs (NewWrapResponseWriter, w)) @ [WriteHeader 500]"
    using assms(1,3) hr by (simp add: run_recover(1))
  have c: "client_status (res_w (Middleware e flt next w r)) =
         (case client_status (snd (ww_calls cs (NewWrapResponseWriter, w))) of
            None \<Rightarrow> Some 500 | Some c \<Rightarrow> Some c)"
    by (simp add: w client_status_append split: option.splits)
  have all: "res_log (Middleware e flt next w r)
      = request_records (res_log (Middleware e flt next w r))"
    using assms(1,3) hr by (intro res_log_unfiltered) simp_all
  have rc: "\<exists>rc st. request_records (res_log (Middleware e flt next w r)) = [rc]
            \<and> lvl rc = ErrorLevel \<and> msg rc = ''panic recover''
            \<and> map_of (embedded rc) ''error'' = Some (VErr (coerce_error v))
            \<and> map_of (embedded rc) ''stack'' = Some (VBytes st) \<and> st \<noteq> []"
    using assms(1,3) hr
    by (simp add: request_records_unfiltered level_msg_def final_fields_def
        MarshalZerologObject_def new_logFields_def debug_Stack_def)
  show ?thesis using p w c rc all by metis
qed

theorem recovered_panic_logged_and_500_written_witness:
  "\<not> filtered None [] req0
   \<and> res_panic (Middleware env0 None (h_panic (OtherValue ''boom'')) [] req0) = None
   \<and> client_status (res_w (Middleware env0 None (h_panic (OtherValue ''boom'')) [] req0)) = Some 500
   \<and> (\<exists>rc st. res_log (Middleware env0 None (h_panic (OtherValue ''boom'')) [] req0) = [rc]
            \<and> lvl rc = ErrorLevel \<and> msg rc = ''panic recover''
            \<and> map_of (embedded rc) ''error'' = Some (VErr ''boom'')
            \<and> map_of (embedded rc) ''stack'' = Some (VBytes st) \<and> st \<noteq> [])"
  using recovered_panic_logged_and_500_written
      [of None "[]" req0 "h_panic (OtherValue ''boom'')" env0 "[]" "OtherValue ''boom''"]
  by (simp add: filtered_def h_panic_def)

text \<open>
  The claim as stated fails at two handlers. One writes the header 200 and then panics
  with "boom": the client has been sent 200, not 500. The other calls \<^verbatim>\<open>panic(nil)\<close>
  having written nothing: \<^verbatim>\<open>recover()\<close> returns \<^verbatim>\<open>nil\<close>, so no
  \<^verbatim>\<open>WriteHeader(500)\<close> is made and the record is a warning "unknown status" with no
  error.
\<close>

theorem panic_after_header_counterexample:
  "snd (h_header_panic 200 (OtherValue ''boom'') (handler_req env0 req0)) = Some (OtherValue ''boom'')
   \<and> OtherValue ''boom'' \<noteq> ErrAbortHandler
   \<and> client_status (res_w (Middleware env0 None (h_header_panic 200 (OtherValue ''boom'')) [] req0))
       = Some 200
   \<and> client_status (res_w (Middleware env0 None (h_header_panic 200 (OtherValue ''boom'')) [] req0))
       \<noteq> Some 500
   \<and> res_w (Middleware env0 None h_panic_nil [] req0) = []
   \<and> msg (hd (res_log (Middleware env0 None h_panic_nil [] req0))) = ''unknown status''
   \<and> lvl (hd (res_log (Middleware env0 None h_panic_nil [] req0))) = WarnLevel
   \<and> map_of (embedded (hd (res_log (Middleware env0 None h_panic_nil [] req0)))) ''error'' = None"
proof -
  have nf: "\<not> filtered None [] req0" by (simp add: filtered_def)
  have run: "h_header_panic 200 (OtherValue ''boom'') (handler_req env0 req0)
      = ([WriteHeader 200], Some (OtherValue ''boom''))"
    by (simp add: h_header_panic_def)
  have a: "res_w (Middleware env0 None (h_header_panic 200 (OtherValue ''boom'')) [] req0)
      = [WriteHeader 200, WriteHeader 500]"
    using nf run
    by (simp add: run_recover(1) NewWrapResponseWriter_def ww_WriteHeader_def)
  have nil: "h_panic_nil (handler_req env0 req0) = ([], None)"
    by (simp add: h_panic_nil_def go_handler_def)
  have b: "res_w (Middleware env0 None h_panic_nil [] req0) = []"
    using nf nil by (simp add: run_return(1))
  have all: "res_log (Middleware env0 None h_panic_nil [] req0)
      = request_records (res_log (Middleware env0 None h_panic_nil [] req0))"
    using nf nil by (intro res_log_unfiltered) simp_all
  have c: "msg (hd (request_records (res_log (Middleware env0 None h_panic_nil [] req0))))
        = ''unknown status''
      \<and> lvl (hd (request_records (res_log (Middleware env0 None h_panic_nil [] req0))))
        = WarnLevel
      \<and> map_of (embedded (hd (request_records (res_log (Middleware env0 None h_panic_nil [] req0)))))
        ''error'' = None"
    using nf nil
    by (simp add: request_records_unfiltered final_fields_def Status_def
        NewWrapResponseWriter_def level_msg_def MarshalZerologObject_def new_logFields_def)
  show ?thesis using run a b c all by simp
qed

subsection \<open>Level and message\<close>



subsection \<open>The request id\<close>

text \<open>
  C4. For a logged request, the token bound to the record as \<^verbatim>\<open>request_id\<close> is the
  inbound value of the configured header when that value is not empty, and otherwise the
  token the generator produced (not empty when the generator's text is not); in both cases
  the handler finds that token in the request's header and in the logger of its context.
\<close>

theorem request_id_resolution:
  assumes "\<not> filtered flt w r"
    and "next (handler_request (Middleware e flt next w r)) = (cs, p)"
    and "p \<noteq> Some ErrAbortHandler"
    and "uuid_New_String e \<noteq> []"
  shows "\<exists>rc tok. request_records (res_log (Middleware e flt next w r)) = [rc]
     \<and> bound rc = [(''request_id'', tok)]
     \<and> tok \<noteq> []
     \<and> tok = (if Header_Get (req_Header r) (RequestIDHeader e) = [] then uuid_New_String e
              else Header_Get (req_Header r) (RequestIDHeader e))
     \<and> Header_Get (req_Header (handler_request (Middleware e flt next w r))) (RequestIDHeader e) = tok
     \<and> req_Context (handler_request (Middleware e flt next w r)) = Some [(''request_id'', tok)]"
proof -
  have hq: "handler_request (Middleware e flt next w r) = handler_req e r"
    using assms(1) by (simp add: handler_request_unfiltered)
  have hr: "snd (next (handler_req e r)) \<noteq> Some ErrAbortHandler"
    using assms(2,3) hq by simp
  have ne: "request_id_of e r \<noteq> []"
    using assms(4) by (simp add: request_id_of_cases)
  have ctx: "req_Context (handler_req e r) = Some [(''request_id'', request_id_of e r)]"
    by (simp add: handler_req_def)
  show ?thesis
    using assms(1) hr ne ctx
    by (simp add: hq request_records_unfiltered handler_req_header request_id_of_cases)
qed

theorem request_id_resolution_witness:
  "\<not> filtered None [] req0 \<and> uuid_New_String env0 \<noteq> []
   \<and> (\<exists>rc. request_records (res_log (Middleware env0 None h_silent [] req0)) = [rc]
        \<and> bound rc = [(''request_id'', ''9627a4a0-9d94-4ab6-844c-9599c0a15cd0'')])
   \<and> Header_Get (req_Header (handler_request (Middleware env0 None h_silent [] req0)))
          (RequestIDHeader env0)
        = ''9627a4a0-9d94-4ab6-844c-9599c0a15cd0''
   \<and> (\<exists>rc. request_records (res_log (Middleware env0 None h_silent [] req_with_id)) = [rc]
        \<and> bound rc = [(''request_id'', ''abc-123'')])"
proof -
  have h1: "Header_Get (req_Header req0) (RequestIDHeader env0) = []"
    by (simp add: req0_def Header_Get_def)
  have h2: "Header_Get (req_Header req_with_id) (RequestIDHeader env0) = ''abc-123''"
    by (simp add: req_with_id_def env0_def Header_Get_def)
  have h3: "uuid_New_String env0 = ''9627a4a0-9d94-4ab6-844c-9599c0a15cd0''"
    by (simp add: env0_def)
  show ?thesis
    using request_id_resolution [of None "[]" req0 h_silent env0 "[]" None]
      request_id_resolution [of None "[]" req_with_id h_silent env0 "[]" None]
    by (simp add: filtered_def h_silent_def h1 h2 h3) blast
qed

subsection \<open>The body, read and restored\<close>

text \<open>
  C5. For every request the middleware processes, a handler that reads the body reads the
  bytes the original body held, to a clean end of file; when the request has no body the
  step that reads the body leaves the request as it is, and the handler's request has no
  body either. Method, host, remote address, path and protocol version reach the handler
  unchanged.
\<close>

theorem body_round_trip:
  assumes "\<not> filtered flt w r"
  shows "(case req_Body r of
            Some b \<Rightarrow> req_Body (handler_request (Middleware e flt next w r))
                        = Some (Reader (content b) False)
          | None \<Rightarrow> req_Body (handler_request (Middleware e flt next w r)) = None
                 \<and> read_body (set_request_id e r) = ([], set_request_id e r))
     \<and> req_Method (handler_request (Middleware e flt next w r)) = req_Method r
     \<and> req_Host (handler_request (Middleware e flt next w r)) = req_Host r
     \<and> RemoteAddr (handler_request (Middleware e flt next w r)) = RemoteAddr r
     \<and> URL_Path (handler_request (Middleware e flt next w r)) = URL_Path r
     \<and> ProtoMajor (handler_request (Middleware e flt next w r)) = ProtoMajor r"
  using assms
  by (simp add: handler_request_unfiltered handler_req_def read_body_def set_request_id_def
      ReadAll_def NewBuffer_def split: option.splits)

theorem body_round_trip_witness:
  "\<not> filtered None [] req_post
   \<and> req_Body (handler_request (Middleware env0 None h_silent [] req_post))
       = Some (Reader ''hello'' False)
   \<and> req_Method (handler_request (Middleware env0 None h_silent [] req_post)) = ''POST''
   \<and> req_Body (handler_request (Middleware env0 None h_silent [] req0)) = None"
  using body_round_trip [of None "[]" req_post env0 h_silent]
    body_round_trip [of None "[]" req0 env0 h_silent]
  by (simp add: filtered_def req_post_def req0_def)

subsection \<open>The logged body\<close>

text \<open>
  C6, as amended. For every logged request exactly one record is logged and its
  \<^verbatim>\<open>body\<close> field is: for a body that \<^verbatim>\<open>json.Unmarshal\<close> accepts into a map (valid
  JSON whose top-level value is an object or \<^verbatim>\<open>null\<close>, every number of which converts
  to a \<^verbatim>\<open>float64\<close>), the result of \<^verbatim>\<open>json.Compact\<close>, which is the body with white
  space bytes taken out and every other byte kept in place; for every other body, valid
  JSON or not, the raw bytes. Compaction does not fail on a body that was accepted, so no
  separate record of a failed compaction is logged.
\<close>

theorem logged_body_field:
  assumes "\<not> filtered flt w r"
    and "next (handler_request (Middleware e flt next w r)) = (cs, p)"
    and "p \<noteq> Some ErrAbortHandler"
    and "data = (case req_Body r of None \<Rightarrow> [] | Some b \<Rightarrow> content b)"
  shows "\<exists>rc body. res_log (Middleware e flt next w r) = [rc]
     \<and> map_of (embedded rc) ''body'' = Some (VStr body)
     \<and> (if json_Unmarshal_map (ParseFloat e) data
         then json_Compact data = Some body \<and> subseq body data
            \<and> filter (\<lambda>c. \<not> isSpace c) body = filter (\<lambda>c. \<not> isSpace c) data
         else body = data)"
proof -
  have hr: "snd (next (handler_req e r)) \<noteq> Some ErrAbortHandler"
    using assms(1,2,3) by (simp add: handler_request_unfiltered)
  have d: "fst (read_body (set_request_id e r)) = data"
    by (simp add: read_body_bytes set_request_id_body assms(4))
  have one: "res_log (Middleware e flt next w r) = request_records (res_log (Middleware e flt next w r))"
    using assms(1) hr by (rule res_log_unfiltered)
  have body: "map_of (embedded (hd (request_records (res_log (Middleware e flt next w r))))) ''body''
      = Some (VStr (fst (formatReqBody (ParseFloat e) data)))"
    using assms(1) hr
    by (simp add: request_records_unfiltered Marshal_body final_fields_def new_logFields_def
        logged_body_def d)
  have sing: "request_records (res_log (Middleware e flt next w r))
      = [hd (request_records (res_log (Middleware e flt next w r)))]"
    using assms(1) hr by (simp add: request_records_unfiltered)
  have cases: "if json_Unmarshal_map (ParseFloat e) data
         then json_Compact data = Some (fst (formatReqBody (ParseFloat e) data))
            \<and> subseq (fst (formatReqBody (ParseFloat e) data)) data
            \<and> filter (\<lambda>c. \<not> isSpace c) (fst (formatReqBody (ParseFloat e) data))
                = filter (\<lambda>c. \<not> isSpace c) data
         else fst (formatReqBody (ParseFloat e) data) = data"
  proof (cases "json_Unmarshal_map (ParseFloat e) data")
    case True
    then obtain out where o: "formatReqBody (ParseFloat e) data = (out, [])"
        "json_Compact data = Some out"
      using formatReqBody_accepted by blast
    then show ?thesis using True Compact_kept[OF o(2)] by simp
  next
    case False
    then show ?thesis by (simp add: formatReqBody_def)
  qed
  show ?thesis
    using one sing body cases by metis
qed

theorem logged_body_field_witness:
  "\<not> filtered None [] req_json
   \<and> json_Unmarshal_map (ParseFloat env0) ''{ \"a b\" : [1, 2] }''
   \<and> (\<exists>rc. res_log (Middleware env0 None h_silent [] req_json) = [rc]
        \<and> map_of (embedded rc) ''body'' = Some (VStr ''{\"a b\":[1,2]}''))"
proof -
  have u: "json_Unmarshal_map (ParseFloat env0) ''{ \"a b\" : [1, 2] }''"
    by code_simp
  have c: "json_Compact ''{ \"a b\" : [1, 2] }'' = Some ''{\"a b\":[1,2]}''"
    by code_simp
  have b: "(case req_Body req_json of None \<Rightarrow> [] | Some b \<Rightarrow> content b) = ''{ \"a b\" : [1, 2] }''"
    by (simp add: req_json_def)
  show ?thesis
    using logged_body_field [of None "[]" req_json h_silent env0 "[]" None "''{ \"a b\" : [1, 2] }''"]
      u c b
    by (auto simp: filtered_def h_silent_def)
qed

text \<open>The claim as stated (every valid JSON body is logged compacted) fails for a JSON
  array: it is valid, its compact form differs, and it is logged as it came.\<close>

theorem valid_json_array_counterexample:
  "checkValid ''[1, 2]''
   \<and> json_Compact ''[1, 2]'' = Some ''[1,2]''
   \<and> fst (formatReqBody (ParseFloat env0) ''[1, 2]'') = ''[1, 2]''
   \<and> fst (formatReqBody (ParseFloat env0) ''[1, 2]'') \<noteq> ''[1,2]''"
  by code_simp

subsection \<open>The filter\<close>

text \<open>
  C7. When the filter is present and answers true, the middleware calls the next handler
  with the original writer and the original request and does nothing else: the handler's
  calls reach the writer as they are, its panic (if any) leaves as it is, nothing is
  logged, and nothing of the result depends on the clock, the generator or the body.
\<close>

theorem filtered_request_only_invokes_next:
  assumes "filtered flt w r"
  shows "Middleware e flt next w r =
     \<lparr>res_w = w @ fst (next r), res_log = [], res_panic = snd (next r), handler_request = r\<rparr>"
  using assms by (simp add: Middleware_def case_prod_beta)

theorem filtered_request_only_invokes_next_witness:
  "filtered (Some healthcheck) [] req_health
   \<and> Middleware env0 (Some healthcheck) (h_status 200) [] req_health =
      \<lparr>res_w = [WriteHeader 200], res_log = [], res_panic = None, handler_request = req_health\<rparr>"
  using filtered_request_only_invokes_next
      [of "Some healthcheck" "[]" req_health env0 "h_status 200"]
  by (simp add: filtered_def healthcheck_def req_health_def h_status_def)

subsection \<open>Latency\<close>

text \<open>
  C8, as amended. For every logged request the latency field is the elapsed time in
  milliseconds cut off (not rounded) after two decimal digits, that is the whole number of
  ten-microsecond units in the elapsed nanoseconds, divided by 100; it is not negative
  when the elapsed time is not.
\<close>

theorem latency_is_truncated_milliseconds:
  assumes "\<not> filtered flt w r"
    and "next (handler_request (Middleware e flt next w r)) = (cs, p)"
    and "p \<noteq> Some ErrAbortHandler"
    and "0 \<le> Since_Nanoseconds e"
  shows "\<exists>rc l. request_records (res_log (Middleware e flt next w r)) = [rc]
     \<and> map_of (embedded rc) ''latency'' = Some (VFloat64 l)
     \<and> l = of_int (Since_Nanoseconds e div 10000) / 100
     \<and> 0 \<le> l
     \<and> l \<le> of_int (Since_Nanoseconds e) / 1000000
     \<and> of_int (Since_Nanoseconds e) / 1000000 < l + 1 / 100"
proof -
  have hr: "snd (next (handler_req e r)) \<noteq> Some ErrAbortHandler"
    using assms(1,2,3) by (simp add: handler_request_unfiltered)
  have "map_of (embedded (hd (request_records (res_log (Middleware e flt next w r))))) ''latency''
      = Some (VFloat64 (latency_of (Since_Nanoseconds e)))"
    using assms(1) hr
    by (simp add: request_records_unfiltered Marshal_latency final_fields_def)
  moreover have "request_records (res_log (Middleware e flt next w r))
      = [hd (request_records (res_log (Middleware e flt next w r)))]"
    using assms(1) hr by (simp add: request_records_unfiltered)
  ultimately show ?thesis
    using latency_bounds[OF assms(4)] by metis
qed

theorem latency_is_truncated_milliseconds_witness:
  "\<not> filtered None [] req0 \<and> 0 \<le> Since_Nanoseconds env0
   \<and> (\<exists>rc. request_records (res_log (Middleware env0 None h_silent [] req0)) = [rc]
        \<and> map_of (embedded rc) ''latency'' = Some (VFloat64 (123 / 100)))"
proof -
  have ns: "Since_Nanoseconds env0 = 1234567" by (simp add: env0_def)
  show ?thesis
    using latency_is_truncated_milliseconds [of None "[]" req0 h_silent env0 "[]" None]
    by (auto simp: filtered_def h_silent_def ns)
qed

text \<open>The claim as stated (seconds, to two decimal digits) fails after one second: the
  field is 1000, not 1.\<close>

theorem one_second_latency_counterexample:
  "map_of (embedded (hd (request_records (res_log
      (Middleware (env0\<lparr>Since_Nanoseconds := 1000000000\<rparr>) None h_silent [] req0))))) ''latency''
     = Some (VFloat64 1000)
   \<and> map_of (embedded (hd (request_records (res_log
      (Middleware (env0\<lparr>Since_Nanoseconds := 1000000000\<rparr>) None h_silent [] req0))))) ''latency''
     \<noteq> Some (VFloat64 1)"
proof -
  have nf: "\<not> filtered None [] req0" by (simp add: filtered_def)
  have run: "snd (h_silent (handler_req (env0\<lparr>Since_Nanoseconds := 1000000000\<rparr>) req0))
      \<noteq> Some ErrAbortHandler"
    by (simp add: h_silent_def)
  show ?thesis
    using nf run
    by (simp add: request_records_unfiltered Marshal_latency final_fields_def latency_of_def
        quo_def)
qed

subsection \<open>The status the observer reports\<close>

text \<open>
  C9, as amended. For a handler that returns, whatever \<^verbatim>\<open>WriteHeader\<close>, \<^verbatim>\<open>Write\<close>,
  \<^verbatim>\<open>ReadFrom\<close> and \<^verbatim>\<open>Flush\<close> calls it made on the observer: the client is sent
  the status and the body bytes it would have been sent without the observer, and the
  logged \<^verbatim>\<open>status_code\<close> is the code the observer recorded, which the handler's first
  call decides. It is the code of a \<^verbatim>\<open>WriteHeader\<close>, 200 after a \<^verbatim>\<open>Write\<close> or a
  \<^verbatim>\<open>ReadFrom\<close>, 0 after a \<^verbatim>\<open>Flush\<close> (which marks the header as written without
  recording a code, so that a later \<^verbatim>\<open>WriteHeader\<close> is dropped), and 0 when the handler
  made no call.
\<close>

theorem observer_exposes_first_written_status:
  assumes "\<not> filtered flt w r"
    and "next (handler_request (Middleware e flt next w r)) = (cs, None)"
  shows "(\<exists>rc. request_records (res_log (Middleware e flt next w r)) = [rc]
            \<and> res_log (Middleware e flt next w r) = [rc]
            \<and> map_of (embedded rc) ''status_code'' = Some (VInt (written_status cs)))
     \<and> written_status cs =
          (case cs of
             [] \<Rightarrow> 0
           | WriteHeader c # _ \<Rightarrow> c
           | Write buf # _ \<Rightarrow> 200
           | ReadFrom buf # _ \<Rightarrow> 200
           | Flush # _ \<Rightarrow> 0)
     \<and> client_status (res_w (Middleware e flt next w r)) = client_status (w @ cs)
     \<and> (\<exists>fw. res_w (Middleware e flt next w r) = w @ fw \<and> body_sent fw = body_sent cs)"
proof -
  have hr: "next (handler_req e r) = (cs, None)"
    using assms by (simp add: handler_request_unfiltered)
  have w: "res_w (Middleware e flt next w r) = snd (ww_calls cs (NewWrapResponseWriter, w))"
    using assms(1) hr by (simp add: run_return(1))
  obtain fw where fw: "snd (ww_calls cs (NewWrapResponseWriter, w)) = w @ fw"
      "body_sent fw = body_sent cs" "client_status fw = client_status cs"
    using ww_calls_prefix[of cs NewWrapResponseWriter w]
    by (auto simp: NewWrapResponseWriter_def)
  have all: "res_log (Middleware e flt next w r)
      = request_records (res_log (Middleware e flt next w r))"
    using assms(1) hr by (intro res_log_unfiltered) simp_all
  have rc: "\<exists>rc. request_records (res_log (Middleware e flt next w r)) = [rc]
            \<and> map_of (embedded rc) ''status_code'' = Some (VInt (written_status cs))"
    using assms(1) hr
    by (simp add: request_records_unfiltered Marshal_status final_fields_def Status_ww_calls)
  have ws: "written_status cs =
          (case cs of
             [] \<Rightarrow> 0
           | WriteHeader c # _ \<Rightarrow> c
           | Write buf # _ \<Rightarrow> 200
           | ReadFrom buf # _ \<Rightarrow> 200
           | Flush # _ \<Rightarrow> 0)"
    by (cases cs rule: written_status.cases) simp_all
  have c: "client_status (res_w (Middleware e flt next w r)) = client_status (w @ cs)"
    by (simp add: w fw client_status_append split: option.splits)
  have f: "\<exists>fw. res_w (Middleware e flt next w r) = w @ fw \<and> body_sent fw = body_sent cs"
    using w fw by auto
  from rc all have rc': "\<exists>rc. request_records (res_log (Middleware e flt next w r)) = [rc]
            \<and> res_log (Middleware e flt next w r) = [rc]
            \<and> map_of (embedded rc) ''status_code'' = Some (VInt (written_status cs))"
    by metis
  show ?thesis using rc' ws c f by blast
qed

theorem observer_exposes_first_written_status_witness:
  "\<not> filtered None [] req0
   \<and> (\<exists>rc. res_log (Middleware env0 None (h_status 201) [] req0) = [rc]
            \<and> map_of (embedded rc) ''status_code'' = Some (VInt 201))
   \<and> client_status (res_w (Middleware env0 None (h_status 201) [] req0)) = Some 201
   \<and> (\<exists>rc. res_log (Middleware env0 None (h_flush_status 404) [] req0) = [rc]
            \<and> map_of (embedded rc) ''status_code'' = Some (VInt 0))
   \<and> client_status (res_w (Middleware env0 None (h_flush_status 404) [] req0)) = Some 200"
  using observer_exposes_first_written_status
      [of None "[]" req0 "h_status 201" env0 "[WriteHeader 201]"]
    observer_exposes_first_written_status
      [of None "[]" req0 "h_flush_status 404" env0 "[Flush, WriteHeader 404]"]
  by (simp add: filtered_def h_status_def h_flush_status_def) blast

text \<open>The claim as stated (200 for a handler that sets no status) fails for a handler that
  returns having written nothing: the logged status is 0 and the message "unknown
  status".\<close>

theorem silent_handler_status_counterexample:
  "h_silent (handler_req env0 req0) = ([], None)
   \<and> map_of (embedded (hd (request_records (res_log (Middleware env0 None h_silent [] req0)))))
        ''status_code'' = Some (VInt 0)
   \<and> map_of (embedded (hd (request_records (res_log (Middleware env0 None h_silent [] req0)))))
        ''status_code'' \<noteq> Some (VInt 200)
   \<and> msg (hd (request_records (res_log (Middleware env0 None h_silent [] req0)))) = ''unknown status''"
proof -
  have nf: "\<not> filtered None [] req0" by (simp add: filtered_def)
  have run: "h_silent (handler_req env0 req0) = ([], None)" by (simp add: h_silent_def)
  show ?thesis
    using nf run
    by (simp add: request_records_unfiltered Marshal_status final_fields_def Status_def
        NewWrapResponseWriter_def level_msg_def)
qed

subsection \<open>The forced 500 and the logged status\<close>



end
